theory Spec2Isabelle
  imports Main "HOL-Library.AList"
begin

section \<open>JavaScript values used by lib/jwk/keystore.js\<close>

text \<open>
  The failures of the module.  A synchronous \<^verbatim>\<open>throw\<close> and a rejected promise carry
  one of these; which of the two happened is recorded by the outcome type below.
\<close>

datatype error =
    InvalidKeyFactory      \<comment> \<open>\<^verbatim>\<open>new Error("invalid Key factory")\<close>\<close>
  | UnsupportedKeyType     \<comment> \<open>\<^verbatim>\<open>new Error("unsupported key type")\<close>\<close>
  | InvalidKeystore        \<comment> \<open>the rejection reason \<^verbatim>\<open>"invalid keystore"\<close>\<close>
  | SyntaxError            \<comment> \<open>raised by \<^verbatim>\<open>JSON.parse\<close>\<close>
  | TypeError              \<comment> \<open>raised by the runtime: member of null, call of a non-function\<close>
  | FactoryError string    \<comment> \<open>a failure raised by a key factory\<close>

text \<open>
  What a function that returns a promise can do: throw before it returns (\<open>Thrown\<close>),
  return a promise that rejects (\<open>Rejected\<close>) or return one that fulfils (\<open>Resolved\<close>).
\<close>

datatype 'a outcome = Thrown error | Rejected error | Resolved 'a

text \<open>A raw key object: its string-valued members in property order.\<close>

type_synonym jwk = "(string \<times> string) list"

text \<open>
  Truthiness of an optional string member: \<^verbatim>\<open>undefined\<close> and \<^verbatim>\<open>""\<close> are falsy.
\<close>

fun truthy :: "string option \<Rightarrow> bool" where
  "truthy None = False"
| "truthy (Some s) = (s \<noteq> [])"

text \<open>
  Modelled from the spec: the Key object (lib/jwk/basekey.js is not part of the sources
  at hand).  A Key has an object identity \<open>oid\<close> (removal compares by identity), the
  members \<open>kty\<close>, \<open>kid\<close>, \<open>use\<close>, \<open>alg\<close>, its remaining public and private members, and
  the list of algorithms its capability query reports.
\<close>

record key =
  oid :: nat
  kty :: "string option"
  kid :: "string option"
  use :: "string option"
  alg :: "string option"
  pub :: jwk
  priv :: jwk
  algorithms :: "string list"

text \<open>Modelled from the spec: \<^verbatim>\<open>key.supports(alg)\<close>, the algorithm-support predicate.\<close>

definition supports :: "key \<Rightarrow> string \<Rightarrow> bool" where
  "supports k a = (a \<in> set (algorithms k))"

fun member :: "string \<Rightarrow> string option \<Rightarrow> jwk" where
  "member n None = []"
| "member n (Some v) = [(n, v)]"

text \<open>
  Modelled from the spec: \<^verbatim>\<open>key.toJSON(isPrivate)\<close>, the JSON representation of a Key,
  with the private members only when \<open>isPrivate\<close> is set.
\<close>

definition key_toJSON :: "bool \<Rightarrow> key \<Rightarrow> jwk" where
  "key_toJSON isPrivate k =
     member ''kty'' (kty k) @ member ''kid'' (kid k) @ member ''use'' (use k) @
     member ''alg'' (alg k) @ pub k @ (if isPrivate then priv k else [])"

text \<open>The filter object \<^verbatim>\<open>props\<close> of \<^verbatim>\<open>all\<close> and \<^verbatim>\<open>get\<close>: four optional members.\<close>

record props =
  p_kty :: "string option"
  p_use :: "string option"
  p_alg :: "string option"
  p_kid :: "string option"

definition no_props :: props where
  "no_props = \<lparr>p_kty = None, p_use = None, p_alg = None, p_kid = None\<rparr>"

section \<open>Objects used as dictionaries\<close>

text \<open>
  \<^verbatim>\<open>keysets\<close> and the registry's \<^verbatim>\<open>types\<close> are object literals \<^verbatim>\<open>{}\<close>.  Their own
  properties are kept as an association list in creation order.  A read of a name that
  is not an own property continues in \<^verbatim>\<open>Object.prototype\<close>, whose members are listed
  here; \<^verbatim>\<open>__proto__\<close> is the accessor for the prototype itself and never an own
  property, since an assignment to it replaces the prototype instead.
\<close>

definition object_prototype_functions :: "string list" where
  "object_prototype_functions =
     [''constructor'', ''hasOwnProperty'', ''isPrototypeOf'', ''propertyIsEnumerable'',
      ''toLocaleString'', ''toString'', ''valueOf'', ''__defineGetter__'',
      ''__defineSetter__'', ''__lookupGetter__'', ''__lookupSetter__'']"

text \<open>
  A slot of \<^verbatim>\<open>keysets\<close> holds an array of keys, or (after the assignment in \<^verbatim>\<open>add\<close>
  copied it down) a function inherited from \<^verbatim>\<open>Object.prototype\<close>.
\<close>

datatype bucket = Keys "key list" | Builtin

type_synonym keysets = "(string \<times> bucket) list"

text \<open>The result of reading \<^verbatim>\<open>keysets[name]\<close>.\<close>

datatype slot = Array "key list" | NotArray | Undefined

definition keysets_read :: "keysets \<Rightarrow> string \<Rightarrow> slot" where
  "keysets_read ks n =
     (if n = ''__proto__'' then NotArray
      else case map_of ks n of
        Some (Keys xs) \<Rightarrow> Array xs
      | Some Builtin \<Rightarrow> NotArray
      | None \<Rightarrow> if n \<in> set object_prototype_functions then NotArray else Undefined)"

text \<open>
  \<^verbatim>\<open>Object.keys\<close>: the names that are array indices (canonical decimal numerals below
  \<open>2^32 - 1\<close>) come first in ascending numeric order, then the other names in creation
  order.
\<close>

definition digit :: "char \<Rightarrow> bool" where
  "digit c = (48 \<le> (of_char c :: nat) \<and> (of_char c :: nat) \<le> 57)"

definition decimal :: "string \<Rightarrow> nat" where
  "decimal s = foldl (\<lambda>n c. 10 * n + ((of_char c :: nat) - 48)) 0 s"

definition array_index :: "string \<Rightarrow> bool" where
  "array_index s =
     (s \<noteq> [] \<and> list_all digit s \<and> (if hd s = CHR ''0'' then s = ''0'' else True) \<and>
      length s \<le> 10 \<and> decimal s < 4294967295)"

definition object_keys :: "(string \<times> 'v) list \<Rightarrow> string list" where
  "object_keys obj =
     sort_key decimal (filter array_index (map fst obj)) @
     filter (\<lambda>n. \<not> array_index n) (map fst obj)"

section \<open>The key store: queries\<close>

text \<open>
  A \<^verbatim>\<open>JWKStore\<close>: the closure variable \<^verbatim>\<open>keysets\<close> and the constructor argument
  \<^verbatim>\<open>parent\<close>.
\<close>

datatype keystore = KeyStore (keysets: keysets) (parent: "keystore option")

text \<open>The callback \<^verbatim>\<open>matches\<close> of \<^verbatim>\<open>all\<close> (lines 223 to 248).\<close>

definition matches :: "props \<Rightarrow> key \<Rightarrow> bool" where
  "matches f k =
     (if truthy (p_kty f) \<and> truthy (kty k) \<and> p_kty f \<noteq> kty k then False
      else if truthy (p_use f) \<and> truthy (use k) \<and> p_use f \<noteq> use k then False
      else case p_alg f of
        None \<Rightarrow> True
      | Some a \<Rightarrow>
          if a = [] then True
          else if a \<noteq> ''dir'' \<and> truthy (alg k) \<and> Some a \<noteq> alg k then False
          else supports k a)"

text \<open>
  The loop \<^verbatim>\<open>Object.keys(keysets).forEach(...)\<close> of \<^verbatim>\<open>all\<close> (lines 249 to 258) over the
  names still to visit.  \<^verbatim>\<open>keysets[id].filter\<close> raises a TypeError when the slot is
  not an array.
\<close>

fun scan :: "props \<Rightarrow> keysets \<Rightarrow> string list \<Rightarrow> error + key list" where
  "scan f ks [] = Inr []"
| "scan f ks (n # ns) =
     (if truthy (p_kid f) \<and> p_kid f \<noteq> Some n then scan f ks ns
      else case keysets_read ks n of
        Array xs \<Rightarrow>
          (case scan f ks ns of
             Inl e \<Rightarrow> Inl e
           | Inr rest \<Rightarrow> Inr (filter (matches f) xs @ rest))
      | NotArray \<Rightarrow> Inl TypeError
      | Undefined \<Rightarrow> Inl TypeError)"

text \<open>\<^verbatim>\<open>all(props, local)\<close> (lines 218 to 266); \<open>local\<close> is the truthiness of the flag.\<close>

fun "all" :: "props \<Rightarrow> bool \<Rightarrow> keystore \<Rightarrow> error + key list" where
  "all f local (KeyStore ks par) =
     (case scan f ks (object_keys ks) of
        Inl e \<Rightarrow> Inl e
      | Inr candidates \<Rightarrow>
          (case par of
             None \<Rightarrow> Inr candidates
           | Some p \<Rightarrow>
               if \<not> local then
                 (case all f False p of
                    Inl e \<Rightarrow> Inl e
                  | Inr inherited \<Rightarrow> Inr (candidates @ inherited))
               else Inr candidates))"

text \<open>
  The loop of \<^verbatim>\<open>toJSON\<close> (lines 325 to 330); \<^verbatim>\<open>keysets[kid].map\<close> raises a TypeError
  when the slot is not an array.
\<close>

fun collect :: "bool \<Rightarrow> keysets \<Rightarrow> string list \<Rightarrow> error + jwk list" where
  "collect isPrivate ks [] = Inr []"
| "collect isPrivate ks (n # ns) =
     (case keysets_read ks n of
        Array xs \<Rightarrow>
          (case collect isPrivate ks ns of
             Inl e \<Rightarrow> Inl e
           | Inr rest \<Rightarrow> Inr (map (key_toJSON isPrivate) xs @ rest))
      | NotArray \<Rightarrow> Inl TypeError
      | Undefined \<Rightarrow> Inl TypeError)"

text \<open>\<^verbatim>\<open>toJSON(isPrivate)\<close> (lines 321 to 336): the \<^verbatim>\<open>keys\<close> member of the result.\<close>

fun toJSON :: "bool \<Rightarrow> keystore \<Rightarrow> error + jwk list" where
  "toJSON isPrivate (KeyStore ks par) = collect isPrivate ks (object_keys ks)"

section \<open>The key store: \<^verbatim>\<open>get\<close>\<close>

text \<open>
  The arguments of \<^verbatim>\<open>get\<close>: \<^verbatim>\<open>undefined\<close>, \<^verbatim>\<open>null\<close>, a boolean, a string, or a
  reference to a filter object.  Filter objects live in a heap, so that an assignment
  to a member is seen by everyone who holds the reference.
\<close>

datatype arg = AUndefined | ANull | ABool bool | AStr string | AObj nat

record heap =
  cells :: "nat \<Rightarrow> props"
  next_ref :: nat

fun arg_truthy :: "arg \<Rightarrow> bool" where
  "arg_truthy AUndefined = False"
| "arg_truthy ANull = False"
| "arg_truthy (ABool b) = b"
| "arg_truthy (AStr s) = (s \<noteq> [])"
| "arg_truthy (AObj a) = True"

text \<open>
  The block "reconcile arguments" (lines 288 to 295); \<^verbatim>\<open>typeof null\<close> is
  \<^verbatim>\<open>"object"\<close>.
\<close>

fun reconcile :: "arg \<Rightarrow> arg \<Rightarrow> arg \<Rightarrow> arg \<times> arg \<times> arg" where
  "reconcile (ABool b) props local = (ANull, ANull, ABool b)"
| "reconcile (AObj a) props local = (ANull, AObj a, props)"
| "reconcile ANull props local = (ANull, ANull, props)"
| "reconcile ident props local = (ident, props, local)"

text \<open>\<^verbatim>\<open>props = props || {}\<close>: a falsy value is replaced by a new empty object.\<close>

definition or_empty :: "heap \<Rightarrow> arg \<Rightarrow> heap \<times> arg" where
  "or_empty h props =
     (if arg_truthy props then (h, props)
      else (\<lparr>cells = (cells h)(next_ref h := no_props), next_ref = Suc (next_ref h)\<rparr>,
            AObj (next_ref h)))"

text \<open>
  \<^verbatim>\<open>props.kid = kid\<close> for a truthy \<^verbatim>\<open>kid\<close>.  The file is in strict mode: creating a
  member on a primitive value raises a TypeError.
\<close>

fun assign_kid :: "heap \<Rightarrow> arg \<Rightarrow> arg \<Rightarrow> error + heap" where
  "assign_kid h (AObj a) (AStr s) =
     Inr (h\<lparr>cells := (cells h)(a := (cells h a)\<lparr>p_kid := Some s\<rparr>)\<rparr>)"
| "assign_kid h (AObj a) ident = Inr h"
| "assign_kid h props ident = Inl TypeError"

text \<open>The members \<^verbatim>\<open>all\<close> reads from its argument; a primitive value has none of them.\<close>

fun read_props :: "heap \<Rightarrow> arg \<Rightarrow> props" where
  "read_props h (AObj a) = cells h a"
| "read_props h v = no_props"

text \<open>
  Modelled from the spec: the member named \<^verbatim>\<open>0\<close> of a Key object.  The contract of a
  Key lists no such member, so \<^verbatim>\<open>key[0]\<close> is \<^verbatim>\<open>undefined\<close>.
\<close>

definition key_element0 :: "key \<Rightarrow> key option" where
  "key_element0 k = None"

text \<open>\<^verbatim>\<open>candidates[0] || null\<close> on an array of keys.\<close>

fun first_or_null :: "key list \<Rightarrow> key option" where
  "first_or_null [] = None"
| "first_or_null (k # ks) = Some k"

text \<open>
  \<^verbatim>\<open>candidates[0] || null\<close> when \<^verbatim>\<open>candidates\<close> holds what \<^verbatim>\<open>parent.get\<close> returned:
  reading a member of \<^verbatim>\<open>null\<close> raises a TypeError.
\<close>

fun element0_or_null :: "key option \<Rightarrow> error + key option" where
  "element0_or_null None = Inl TypeError"
| "element0_or_null (Some k) = Inr (key_element0 k)"

text \<open>
  \<^verbatim>\<open>get(kid, props, local)\<close> (lines 285 to 309).  The result is the heap after the call
  and either the error thrown or the value returned (\<open>None\<close> is \<^verbatim>\<open>null\<close>).  After the
  delegation the variable \<^verbatim>\<open>candidates\<close> holds what \<^verbatim>\<open>parent.get\<close> returned, a Key or
  \<^verbatim>\<open>null\<close>, and line 307 reads its member \<^verbatim>\<open>0\<close>.
\<close>

fun get :: "heap \<Rightarrow> keystore \<Rightarrow> arg \<Rightarrow> arg \<Rightarrow> arg \<Rightarrow> heap \<times> (error + key option)" where
  "get h (KeyStore ks par) ident0 props0 local0 =
     (case reconcile ident0 props0 local0 of (ident, props1, local) \<Rightarrow>
     (case or_empty h props1 of (h1, props) \<Rightarrow>
     (case (if arg_truthy ident then assign_kid h1 props ident else Inr h1) of
        Inl e \<Rightarrow> (h1, Inl e)
      | Inr h2 \<Rightarrow>
          (case all (read_props h2 props) True (KeyStore ks par) of
             Inl e \<Rightarrow> (h2, Inl e)
           | Inr candidates \<Rightarrow>
               (case par of
                  None \<Rightarrow> (h2, Inr (first_or_null candidates))
                | Some p \<Rightarrow>
                    if candidates = [] \<and> \<not> arg_truthy local then
                      (case get h2 p props local AUndefined of (h3, r) \<Rightarrow>
                         (case r of
                            Inl e \<Rightarrow> (h3, Inl e)
                          | Inr found \<Rightarrow> (h3, element0_or_null found)))
                    else (h2, Inr (first_or_null candidates)))))))"

section \<open>The key registry\<close>

text \<open>
  Modelled from the spec: the configuration object a factory's \<^verbatim>\<open>prepare\<close> yields and the
  Key constructor consumes.  It names the private members of the key and the algorithms
  the key will report.
\<close>

record config =
  cfg_private :: "string list"
  cfg_algorithms :: "string list"

text \<open>
  The values handed to \<^verbatim>\<open>add\<close> and \<^verbatim>\<open>asKeyStore\<close>: \<^verbatim>\<open>undefined\<close>, \<^verbatim>\<open>null\<close>, a number or
  boolean, a string, a Key (an object for which \<^verbatim>\<open>isKey\<close>, lines 429 to 456, holds), a
  KeyStore (one for which \<^verbatim>\<open>isKeyStore\<close>, lines 346 to 364, holds), an array, or a plain
  object.  A plain object is given by its string-valued members and, apart from them,
  its member \<^verbatim>\<open>keys\<close> when it has one.
\<close>

datatype val =
    VUndefined
  | VNull
  | VOther
  | VText string
  | VKey key
  | VStore keystore
  | VArr "val list"
  | VObj jwk "val option"

datatype keysize = DefaultSize | Bits nat | Curve string

text \<open>
  Modelled from the spec: the Key Factory contract.  A factory is a plain object with
  the members \<^verbatim>\<open>kty\<close>, \<^verbatim>\<open>generate\<close> and \<^verbatim>\<open>prepare\<close>.  \<open>f_kty\<close> is the member \<^verbatim>\<open>kty\<close> when
  it is a string; \<^verbatim>\<open>generate\<close> and \<^verbatim>\<open>prepare\<close> return promises, or throw.
\<close>

record factory =
  f_kty :: "string option"
  f_generate :: "keysize \<Rightarrow> jwk outcome"
  f_prepare :: "val \<Rightarrow> config outcome"

text \<open>Modelled from the spec: the names of the members of a factory.\<close>

definition factory_members :: "string list" where
  "factory_members = [''kty'', ''generate'', ''prepare'']"

text \<open>
  The closure variable \<^verbatim>\<open>types\<close> of \<^verbatim>\<open>JWKRegistry\<close>: its own properties, and the factory
  that an assignment to \<^verbatim>\<open>types["__proto__"]\<close> has installed as its prototype, if any.
\<close>

record registry =
  types :: "(string \<times> factory) list"
  types_proto :: "factory option"

definition empty_registry :: registry where
  "empty_registry = \<lparr>types = [], types_proto = None\<rparr>"

text \<open>
  \<^verbatim>\<open>register(factory)\<close> (lines 27 to 37); \<open>None\<close> is a falsy argument.  The result is
  the error thrown, or the registry that is returned.
\<close>

fun register :: "factory option \<Rightarrow> registry \<Rightarrow> error + registry" where
  "register None r = Inl InvalidKeyFactory"
| "register (Some f) r =
     (case f_kty f of
        None \<Rightarrow> Inl InvalidKeyFactory
      | Some t \<Rightarrow>
          if t = [] then Inl InvalidKeyFactory
          else if t = ''__proto__'' then Inr (r\<lparr>types_proto := Some f\<rparr>)
          else Inr (r\<lparr>types := AList.update t f (types r)\<rparr>))"

text \<open>
  What \<^verbatim>\<open>registry.get(kty)\<close> (lines 52 to 56) returns: a registered factory, a truthy
  value found along the prototype chain that is no factory, or \<^verbatim>\<open>undefined\<close>.
\<close>

datatype lookup = Found factory | Foreign | NotFound

definition registry_get :: "registry \<Rightarrow> string option \<Rightarrow> lookup" where
  "registry_get r t =
     (let n = (case t of None \<Rightarrow> [] | Some s \<Rightarrow> s) in
      if n = ''__proto__'' then
        (case types_proto r of Some f \<Rightarrow> Found f | None \<Rightarrow> Foreign)
      else case map_of (types r) n of
        Some f \<Rightarrow> Found f
      | None \<Rightarrow>
          if n \<in> set object_prototype_functions then Foreign
          else if types_proto r \<noteq> None \<and> n \<in> set factory_members then Foreign
          else NotFound)"

section \<open>The key store: \<^verbatim>\<open>add\<close>, \<^verbatim>\<open>generate\<close>, \<^verbatim>\<open>remove\<close>\<close>

text \<open>
  Modelled from the spec: \<^verbatim>\<open>new JWK.BaseKey(kty, store, props, cfg)\<close>.  The new object
  gets the identity \<open>i\<close>.  Every Key has an identifier: the member \<^verbatim>\<open>kid\<close> of \<^verbatim>\<open>props\<close>
  when it is truthy, and otherwise one that the constructor generates, which stands
  here as a run of \<^verbatim>\<open>#\<close> signs made from the identity of the object.
\<close>

definition header_members :: "string list" where
  "header_members = [''kty'', ''kid'', ''use'', ''alg'']"

definition generated_kid :: "nat \<Rightarrow> string" where
  "generated_kid i = replicate (Suc i) (CHR ''#'')"

definition BaseKey :: "nat \<Rightarrow> string option \<Rightarrow> jwk \<Rightarrow> config \<Rightarrow> key" where
  "BaseKey i t members cfg =
     \<lparr>oid = i, kty = t,
      kid = (if truthy (map_of members ''kid'') then map_of members ''kid''
             else Some (generated_kid i)),
      use = map_of members ''use'',
      alg = map_of members ''alg'',
      pub = filter (\<lambda>(n, v). n \<notin> set header_members \<and> n \<notin> set (cfg_private cfg)) members,
      priv = filter (\<lambda>(n, v). n \<notin> set header_members \<and> n \<in> set (cfg_private cfg)) members,
      algorithms = cfg_algorithms cfg\<rparr>"

text \<open>
  Lines 136 to 141 of \<^verbatim>\<open>add\<close>.  \<open>parse\<close> stands for \<^verbatim>\<open>JSON.parse\<close>, \<open>None\<close> where it
  raises.  A Key is replaced by \<^verbatim>\<open>jwk.toJSON(true)\<close>.
\<close>

fun normalize_input :: "(string \<Rightarrow> val option) \<Rightarrow> val \<Rightarrow> error + val" where
  "normalize_input parse (VText t) =
     (case parse t of None \<Rightarrow> Inl SyntaxError | Some v \<Rightarrow> Inr v)"
| "normalize_input parse (VKey k) = Inr (VObj (key_toJSON True k) None)"
| "normalize_input parse v = Inr v"

text \<open>Reading \<^verbatim>\<open>jwk.kty\<close>; a member of \<^verbatim>\<open>undefined\<close> or \<^verbatim>\<open>null\<close> raises a TypeError.\<close>

fun kty_of :: "val \<Rightarrow> error + string option" where
  "kty_of VUndefined = Inl TypeError"
| "kty_of VNull = Inl TypeError"
| "kty_of (VObj members ks) = Inr (map_of members ''kty'')"
| "kty_of (VKey k) = Inr (kty k)"
| "kty_of v = Inr None"

text \<open>The string-valued members that the Key constructor finds in \<^verbatim>\<open>jwk\<close>.\<close>

fun members_of :: "val \<Rightarrow> jwk" where
  "members_of (VObj members ks) = members"
| "members_of v = []"

text \<open>
  \<^verbatim>\<open>add\<close> up to the settlement of \<^verbatim>\<open>keytype.prepare(jwk)\<close> (lines 136 to 149): the
  normalized input, its type tag and the configuration.
\<close>

definition add_prepare ::
  "(string \<Rightarrow> val option) \<Rightarrow> registry \<Rightarrow> val \<Rightarrow> (string option \<times> val \<times> config) outcome" where
  "add_prepare parse reg input =
     (case normalize_input parse input of
        Inl e \<Rightarrow> Thrown e
      | Inr jwk \<Rightarrow>
          (case kty_of jwk of
             Inl e \<Rightarrow> Thrown e
           | Inr t \<Rightarrow>
               (case registry_get reg t of
                  NotFound \<Rightarrow> Rejected UnsupportedKeyType
                | Foreign \<Rightarrow> Thrown TypeError
                | Found keytype \<Rightarrow>
                    (case f_prepare keytype jwk of
                       Thrown e \<Rightarrow> Thrown e
                     | Rejected e \<Rightarrow> Rejected e
                     | Resolved cfg \<Rightarrow> Resolved (t, jwk, cfg)))))"

text \<open>\<^verbatim>\<open>jwk.kid || ""\<close> (line 153).\<close>

fun kid_or_empty :: "string option \<Rightarrow> string" where
  "kid_or_empty None = []"
| "kid_or_empty (Some s) = s"

text \<open>
  The two continuations of \<^verbatim>\<open>add\<close> (lines 150 to 158), run on the \<^verbatim>\<open>keysets\<close> of the
  moment: the key is constructed with identity \<open>fresh\<close>; \<^verbatim>\<open>keysets[kid] = keysets[kid] || []\<close>
  writes the slot, where a value inherited from \<^verbatim>\<open>Object.prototype\<close> becomes an own
  property (the accessor \<^verbatim>\<open>__proto__\<close> apart); \<^verbatim>\<open>keys.push\<close> raises a TypeError
  on anything but an array.  The result is the settlement of the promise and the new
  \<^verbatim>\<open>keysets\<close>.
\<close>

definition add_commit ::
  "nat \<Rightarrow> keysets \<Rightarrow> string option \<times> val \<times> config \<Rightarrow> key outcome \<times> keysets" where
  "add_commit fresh ks x =
     (case x of (t, jwk, cfg) \<Rightarrow>
        (let k = BaseKey fresh t (members_of jwk) cfg;
             n = kid_or_empty (kid k)
         in case keysets_read ks n of
              Undefined \<Rightarrow> (Resolved k, AList.update n (Keys [k]) ks)
            | Array xs \<Rightarrow> (Resolved k, AList.update n (Keys (xs @ [k])) ks)
            | NotArray \<Rightarrow>
                (Rejected TypeError,
                 if n = ''__proto__'' then ks else AList.update n Builtin ks)))"

text \<open>\<^verbatim>\<open>add(jwk)\<close> (lines 134 to 160).\<close>

definition add ::
  "(string \<Rightarrow> val option) \<Rightarrow> registry \<Rightarrow> nat \<Rightarrow> keysets \<Rightarrow> val \<Rightarrow> key outcome \<times> keysets" where
  "add parse reg fresh ks input =
     (case add_prepare parse reg input of
        Thrown e \<Rightarrow> (Thrown e, ks)
      | Rejected e \<Rightarrow> (Rejected e, ks)
      | Resolved x \<Rightarrow> add_commit fresh ks x)"

text \<open>
  Modelled from the spec: \<^verbatim>\<open>merge(props, jwk, {kty: kty})\<close> of lib/util/merge.js; the
  members of a later argument override those of an earlier one.
\<close>

definition merge :: "jwk \<Rightarrow> jwk \<Rightarrow> jwk \<Rightarrow> jwk" where
  "merge a b c = fold (\<lambda>(n, v). AList.update n v) (b @ c) a"

text \<open>
  \<^verbatim>\<open>generate(kty, size, props)\<close> (lines 102 to 121); \<open>props\<close> is \<open>None\<close> when the
  argument is falsy.  An exception of \<^verbatim>\<open>self.add\<close> is raised inside the continuation
  and so rejects the promise.
\<close>

definition generate ::
  "(string \<Rightarrow> val option) \<Rightarrow> registry \<Rightarrow> nat \<Rightarrow> keysets \<Rightarrow> string \<Rightarrow> keysize \<Rightarrow>
     jwk option \<Rightarrow> key outcome \<times> keysets" where
  "generate parse reg fresh ks t sz props0 =
     (case registry_get reg (Some t) of
        NotFound \<Rightarrow> (Rejected UnsupportedKeyType, ks)
      | Foreign \<Rightarrow> (Thrown TypeError, ks)
      | Found keytype \<Rightarrow>
          (let props = AList.update ''kty'' t (case props0 of None \<Rightarrow> [] | Some p \<Rightarrow> p)
           in case f_generate keytype sz of
                Thrown e \<Rightarrow> (Thrown e, ks)
              | Rejected e \<Rightarrow> (Rejected e, ks)
              | Resolved jwk \<Rightarrow>
                  (case add parse reg fresh ks (VObj (merge props jwk [(''kty'', t)]) None) of
                     (Thrown e, ks') \<Rightarrow> (Rejected e, ks')
                   | (settled, ks') \<Rightarrow> (settled, ks'))))"

text \<open>The property name of \<^verbatim>\<open>keysets[jwk.kid]\<close> (lines 176 and 188).\<close>

fun property_name :: "string option \<Rightarrow> string" where
  "property_name None = ''undefined''"
| "property_name (Some s) = s"

text \<open>\<^verbatim>\<open>keys.indexOf(jwk)\<close>: the position of the first element that is the same object.\<close>

fun indexOf :: "key list \<Rightarrow> key \<Rightarrow> nat option" where
  "indexOf [] k = None"
| "indexOf (x # xs) k =
     (if oid x = oid k then Some 0
      else case indexOf xs k of None \<Rightarrow> None | Some i \<Rightarrow> Some (Suc i))"

text \<open>\<^verbatim>\<open>keys.splice(pos, 1)\<close>: the array without its element at \<open>pos\<close>.\<close>

definition splice1 :: "nat \<Rightarrow> key list \<Rightarrow> key list" where
  "splice1 pos xs = take pos xs @ drop (Suc pos) xs"

text \<open>
  \<^verbatim>\<open>remove(jwk)\<close> (lines 170 to 191); \<open>None\<close> is a falsy argument.  The result is the
  error thrown, or the \<^verbatim>\<open>keysets\<close> after the call.
\<close>

fun remove :: "key option \<Rightarrow> keysets \<Rightarrow> error + keysets" where
  "remove None ks = Inr ks"
| "remove (Some jwk) ks =
     (case keysets_read ks (property_name (kid jwk)) of
        Undefined \<Rightarrow> Inr ks
      | NotArray \<Rightarrow> Inl TypeError
      | Array keys \<Rightarrow>
          (case indexOf keys jwk of
             None \<Rightarrow> Inr ks
           | Some pos \<Rightarrow>
               if splice1 pos keys = [] then Inr (AList.delete (property_name (kid jwk)) ks)
               else Inr (AList.update (property_name (kid jwk)) (Keys (splice1 pos keys)) ks)))"

section \<open>Coercion: \<^verbatim>\<open>asKeyStore\<close>\<close>

text \<open>
  The member \<^verbatim>\<open>keys\<close> of an object, \<open>None\<close> when \<^verbatim>\<open>"keys" in ks\<close> is false.  Keys and
  key stores have no such member.
\<close>

fun keys_member :: "val \<Rightarrow> val option" where
  "keys_member (VObj members (Some v)) = Some v"
| "keys_member (VObj members None) = map_option VText (map_of members ''keys'')"
| "keys_member v = None"

text \<open>
  Lines 402 to 408 followed by the test that \<^verbatim>\<open>keys.map\<close> can be called (line 410).
  The operator \<^verbatim>\<open>in\<close> raises a TypeError on a value that is not an object.
\<close>

fun entries :: "val \<Rightarrow> val list outcome" where
  "entries (VArr xs) = Resolved xs"
| "entries VUndefined = Thrown TypeError"
| "entries VNull = Thrown TypeError"
| "entries VOther = Thrown TypeError"
| "entries (VText t) = Thrown TypeError"
| "entries v =
     (case keys_member v of
        None \<Rightarrow> Rejected InvalidKeystore
      | Some (VArr xs) \<Rightarrow> Resolved xs
      | Some other \<Rightarrow> Thrown TypeError)"

text \<open>
  \<^verbatim>\<open>keys.map(function(k) { return store.add(k); })\<close> (lines 410 to 412): every call runs
  up to its first suspension before the next one starts, and an exception of any of
  them leaves \<^verbatim>\<open>asKeyStore\<close>.
\<close>

fun prepare_all ::
  "(string \<Rightarrow> val option) \<Rightarrow> registry \<Rightarrow> val list \<Rightarrow>
     error + (string option \<times> val \<times> config) outcome list" where
  "prepare_all parse reg [] = Inr []"
| "prepare_all parse reg (x # xs) =
     (case add_prepare parse reg x of
        Thrown e \<Rightarrow> Inl e
      | pending \<Rightarrow>
          (case prepare_all parse reg xs of
             Inl e \<Rightarrow> Inl e
           | Inr ps \<Rightarrow> Inr (pending # ps)))"

text \<open>
  Whether the promise that \<^verbatim>\<open>add\<close> returns is rejected already when it is returned:
  \<^verbatim>\<open>Promise.reject(new Error("unsupported key type"))\<close> of line 145.
\<close>

definition rejected_at_once :: "(string \<Rightarrow> val option) \<Rightarrow> registry \<Rightarrow> val \<Rightarrow> bool" where
  "rejected_at_once parse reg input =
     (case normalize_input parse input of
        Inl e \<Rightarrow> False
      | Inr jwk \<Rightarrow>
          (case kty_of jwk of
             Inl e \<Rightarrow> False
           | Inr t \<Rightarrow>
               (case registry_get reg t of
                  NotFound \<Rightarrow> True
                | Foreign \<Rightarrow> False
                | Found keytype \<Rightarrow> False)))"

text \<open>
  \<^verbatim>\<open>Promise.all(keys)\<close> (line 414) over the additions that are pending when it is
  called.  Each of them settles only after the promise of its factory has settled, in
  an order that the code does not fix; here they settle in the order in which they were
  started, and the first rejection among them is the result.
\<close>

fun settle_all ::
  "nat \<Rightarrow> keysets \<Rightarrow> (string option \<times> val \<times> config) outcome list \<Rightarrow> error + keysets" where
  "settle_all fresh ks [] = Inr ks"
| "settle_all fresh ks (Resolved x # ps) =
     (case add_commit fresh ks x of
        (Resolved k, ks') \<Rightarrow> settle_all (Suc fresh) ks' ps
      | (Rejected e, ks') \<Rightarrow> Inl e
      | (Thrown e, ks') \<Rightarrow> Inl e)"
| "settle_all fresh ks (Rejected e # ps) = Inl e"
| "settle_all fresh ks (Thrown e # ps) = Inl e"

text \<open>
  \<^verbatim>\<open>asKeyStore(ks)\<close> (lines 390 to 420); \<open>reg\<close> is the global registry, the new store
  has no parent.  An addition that is rejected at once rejects \<^verbatim>\<open>Promise.all\<close> before
  any pending addition settles, whatever its place in the array.
\<close>

definition parse_text :: "(string \<Rightarrow> val option) \<Rightarrow> val \<Rightarrow> error + val" where
  "parse_text parse v =
     (case v of
        VText t \<Rightarrow> (case parse t of None \<Rightarrow> Inl SyntaxError | Some w \<Rightarrow> Inr w)
      | other \<Rightarrow> Inr other)"

definition coerce ::
  "(string \<Rightarrow> val option) \<Rightarrow> registry \<Rightarrow> nat \<Rightarrow> val \<Rightarrow> keystore outcome" where
  "coerce parse reg fresh ks0 =
     (case parse_text parse ks0 of
        Inl e \<Rightarrow> Thrown e
      | Inr ks \<Rightarrow>
          (case entries ks of
             Thrown e \<Rightarrow> Thrown e
           | Rejected e \<Rightarrow> Rejected e
           | Resolved keys \<Rightarrow>
               (case prepare_all parse reg keys of
                  Inl e \<Rightarrow> Thrown e
                | Inr ps \<Rightarrow>
                    if list_ex (rejected_at_once parse reg) keys
                    then Rejected UnsupportedKeyType
                    else
                      (case settle_all fresh [] ps of
                         Inl e \<Rightarrow> Rejected e
                       | Inr ks' \<Rightarrow> Resolved (KeyStore ks' None)))))"

fun asKeyStore ::
  "(string \<Rightarrow> val option) \<Rightarrow> registry \<Rightarrow> nat \<Rightarrow> val \<Rightarrow> keystore outcome" where
  "asKeyStore parse reg fresh (VStore s) = Resolved s"
| "asKeyStore parse reg fresh ks = coerce parse reg fresh ks"

section \<open>Notions used in the statements\<close>

fun is_array :: "bucket \<Rightarrow> bool" where
  "is_array (Keys xs) = True"
| "is_array Builtin = False"

text \<open>
  Every own property of \<^verbatim>\<open>keysets\<close> holds an array of keys, as the data model has it
  (and none is named \<^verbatim>\<open>__proto__\<close>, which no assignment can create).
\<close>

definition arrays_only :: "keysets \<Rightarrow> bool" where
  "arrays_only ks = list_all (\<lambda>(n, b). is_array b \<and> n \<noteq> ''__proto__'') ks"

text \<open>The keys under the own property \<open>n\<close> of \<^verbatim>\<open>keysets\<close>.\<close>

definition keys_at :: "keysets \<Rightarrow> string \<Rightarrow> key list" where
  "keys_at ks n = (case map_of ks n of Some (Keys xs) \<Rightarrow> xs | Some Builtin \<Rightarrow> [] | None \<Rightarrow> [])"

text \<open>
  The shape of \<^verbatim>\<open>keysets\<close> that \<^verbatim>\<open>add\<close>, \<^verbatim>\<open>generate\<close> and \<^verbatim>\<open>remove\<close> keep, starting from
  \<^verbatim>\<open>{}\<close>: no own property is named \<^verbatim>\<open>__proto__\<close>, and a slot holds something else than an
  array exactly under the name of a function of \<^verbatim>\<open>Object.prototype\<close>.
\<close>

definition store_inv :: "keysets \<Rightarrow> bool" where
  "store_inv ks =
     list_all (\<lambda>(n, b). n \<noteq> ''__proto__'' \<and> is_array b = (n \<notin> set object_prototype_functions)) ks"


fun bucket_keys :: "bucket \<Rightarrow> key list" where
  "bucket_keys (Keys xs) = xs"
| "bucket_keys Builtin = []"

text \<open>
  The keys of a bucket are different objects, and all of them older than the next
  object to be constructed.
\<close>

definition oids_inv :: "nat \<Rightarrow> keysets \<Rightarrow> bool" where
  "oids_inv fresh ks =
     list_all (\<lambda>(n, b). distinct (map oid (bucket_keys b)) \<and>
                        list_all (\<lambda>x. oid x < fresh) (bucket_keys b)) ks"

subsection \<open>Sample data\<close>

definition oct_factory :: factory where
  "oct_factory =
     \<lparr>f_kty = Some ''oct'',
      f_generate = (\<lambda>sz. Resolved [(''k'', ''c2VjcmV0'')]),
      f_prepare = (\<lambda>v. Resolved \<lparr>cfg_private = [''k''], cfg_algorithms = [''dir'', ''A128GCM'']\<rparr>)\<rparr>"

definition failing_factory :: factory where
  "failing_factory =
     \<lparr>f_kty = Some ''oct'',
      f_generate = (\<lambda>sz. Rejected (FactoryError ''generate'')),
      f_prepare = (\<lambda>v. Rejected (FactoryError ''prepare''))\<rparr>"

definition sample_registry :: registry where
  "sample_registry = \<lparr>types = [(''oct'', oct_factory)], types_proto = None\<rparr>"

definition sample_parse :: "string \<Rightarrow> val option" where
  "sample_parse t = (if t = ''[]'' then Some (VArr []) else None)"

definition rsa_key :: key where
  "rsa_key =
     \<lparr>oid = 0, kty = Some ''RSA'', kid = Some ''a'', use = None, alg = None,
      pub = [(''e'', ''AQAB'')], priv = [(''d'', ''c2VjcmV0'')], algorithms = [''RS256'']\<rparr>"

definition oct_key :: key where
  "oct_key =
     \<lparr>oid = 1, kty = Some ''oct'', kid = Some ''b'', use = None, alg = Some ''A128GCM'',
      pub = [], priv = [(''k'', ''c2VjcmV0'')], algorithms = [''dir'', ''A128GCM'']\<rparr>"


definition sample_heap :: heap where
  "sample_heap = \<lparr>cells = (\<lambda>a. no_props), next_ref = 1\<rparr>"

section \<open>Auxiliary facts\<close>

lemmas eval_defs =
  object_keys_def array_index_def digit_def decimal_def keysets_read_def matches_def
  no_props_def supports_def key_element0_def or_empty_def object_prototype_functions_def
  Let_def

lemmas add_defs =
  add_def add_prepare_def add_commit_def registry_get_def BaseKey_def header_members_def
  factory_members_def

lemma set_object_keys: "set (object_keys obj) = fst ` set obj"
  by (auto simp: object_keys_def)

lemma matches_no_props: "matches no_props k"
  by (simp add: matches_def no_props_def)

lemma collect_scan:
  "collect isPrivate ks ns =
     (case scan no_props ks ns of
        Inl e \<Rightarrow> Inl e
      | Inr xs \<Rightarrow> Inr (map (key_toJSON isPrivate) xs))"
proof (induction ns)
  case Nil
  show ?case by simp
next
  case (Cons n ns)
  have "\<not> truthy (p_kid no_props)"
    by (simp add: no_props_def)
  with Cons show ?case
    by (simp add: matches_no_props split: slot.splits sum.splits)
qed

lemma arrays_only_read:
  assumes "arrays_only ks" and "n \<in> fst ` set ks"
  shows "keysets_read ks n = Array (keys_at ks n)"
proof -
  from assms(2) obtain b where b: "map_of ks n = Some b"
    by (metis domIff dom_map_of_conv_image_fst not_None_eq)
  then have "(n, b) \<in> set ks"
    by (rule map_of_SomeD)
  with assms(1) have "is_array b" and n: "n \<noteq> ''__proto__''"
    by (auto simp: arrays_only_def list_all_iff)
  then obtain xs where "b = Keys xs"
    by (cases b) auto
  with b n show ?thesis
    by (simp add: keysets_read_def keys_at_def)
qed

lemma collect_arrays:
  assumes "arrays_only ks"
  shows "set ns \<subseteq> fst ` set ks \<Longrightarrow>
    collect isPrivate ks ns =
      Inr (concat (map (\<lambda>n. map (key_toJSON isPrivate) (keys_at ks n)) ns))"
proof (induction ns)
  case Nil
  show ?case by simp
next
  case (Cons n ns)
  then have "keysets_read ks n = Array (keys_at ks n)"
    using assms by (simp add: arrays_only_read)
  with Cons show ?case
    by simp
qed

lemma get_object_keeps_heap: "fst (get h st (AObj a) l u) = h"
proof (induction st arbitrary: l u)
  case (KeyStore ks par)
  show ?case
  proof (cases par)
    case None
    then show ?thesis
      by (simp add: or_empty_def split: sum.splits)
  next
    case (Some p)
    then have "p \<in> set_option par"
      by simp
    from KeyStore [OF this] have "fst (get h p (AObj a) l AUndefined) = h" .
    with Some show ?thesis
      by (auto simp add: or_empty_def split: sum.splits prod.splits)
  qed
qed

lemma get_object_keeps_heapD: "get h st (AObj a) l u = (h', r) \<Longrightarrow> h' = h"
  using get_object_keeps_heap [of h st a l u] by simp

lemma update_fresh: "map_of al n = None \<Longrightarrow> AList.update n v al = al @ [(n, v)]"
  by (induction al) (auto split: if_splits)

lemma add_commit_effect:
  "add_commit fresh ks x = (out, ks') \<Longrightarrow>
   (case out of
      Resolved k \<Rightarrow>
        ks' = AList.update (kid_or_empty (kid k))
                (Keys (keys_at ks (kid_or_empty (kid k)) @ [k])) ks
    | Rejected e \<Rightarrow>
        ks' = ks \<or> (\<exists>n. n \<in> set object_prototype_functions \<and> map_of ks n = None \<and>
                  ks' = ks @ [(n, Builtin)])
    | Thrown e \<Rightarrow> ks' = ks)"
  by (cases x) (auto simp: add_commit_def Let_def keysets_read_def keys_at_def update_fresh AList.update_triv
      split: slot.splits option.splits bucket.splits if_splits)

lemma add_effect:
  "add parse reg fresh ks input = (out, ks') \<Longrightarrow>
   (case out of
      Resolved k \<Rightarrow>
        ks' = AList.update (kid_or_empty (kid k))
                (Keys (keys_at ks (kid_or_empty (kid k)) @ [k])) ks
    | Rejected e \<Rightarrow>
        ks' = ks \<or> (\<exists>n. n \<in> set object_prototype_functions \<and> map_of ks n = None \<and>
                  ks' = ks @ [(n, Builtin)])
    | Thrown e \<Rightarrow> ks' = ks)"
  unfolding add_def
  by (cases "add_prepare parse reg input") (auto dest: add_commit_effect)

lemma generate_effect:
  "generate parse reg fresh ks t sz props0 = (out, ks') \<Longrightarrow>
   (case out of
      Resolved k \<Rightarrow>
        ks' = AList.update (kid_or_empty (kid k))
                (Keys (keys_at ks (kid_or_empty (kid k)) @ [k])) ks
    | Rejected e \<Rightarrow>
        ks' = ks \<or> (\<exists>n. n \<in> set object_prototype_functions \<and> map_of ks n = None \<and>
                  ks' = ks @ [(n, Builtin)])
    | Thrown e \<Rightarrow> ks' = ks)"
proof (cases "registry_get reg (Some t)")
  case (Found keytype)
  assume g: "generate parse reg fresh ks t sz props0 = (out, ks')"
  show ?thesis
  proof (cases "f_generate keytype sz")
    case (Resolved jwk)
    obtain settled ks1 where a: "add parse reg fresh ks
        (VObj (merge (AList.update ''kty'' t (case props0 of None \<Rightarrow> [] | Some p \<Rightarrow> p))
           jwk [(''kty'', t)]) None) = (settled, ks1)"
      by (cases "add parse reg fresh ks
        (VObj (merge (AList.update ''kty'' t (case props0 of None \<Rightarrow> [] | Some p \<Rightarrow> p))
           jwk [(''kty'', t)]) None)")
    from add_effect [OF a] g Found Resolved a show ?thesis
      by (cases settled) (auto simp: generate_def)
  qed (use g Found in \<open>auto simp: generate_def\<close>)
qed (auto simp: generate_def)

lemma indexOf_present:
  "k \<in> set xs \<Longrightarrow> distinct (map oid xs) \<Longrightarrow>
   \<exists>i. indexOf xs k = Some i \<and> splice1 i xs = remove1 k xs"
proof (induction xs)
  case Nil
  then show ?case by simp
next
  case (Cons x xs)
  show ?case
  proof (cases "oid x = oid k")
    case True
    with Cons.prems have "x = k" by (auto simp: image_iff)
    then show ?thesis by (simp add: splice1_def)
  next
    case False
    with Cons.prems have "k \<in> set xs" "distinct (map oid xs)" "x \<noteq> k" by auto
    with Cons.IH obtain i where "indexOf xs k = Some i" "splice1 i xs = remove1 k xs" by blast
    with False \<open>x \<noteq> k\<close> show ?thesis by (simp add: splice1_def)
  qed
qed

lemma indexOf_absent: "oid k \<notin> oid ` set xs \<Longrightarrow> indexOf xs k = None"
  by (induction xs) auto

lemma remove_present:
  assumes "kid k = Some n" and "keysets_read ks n = Array xs" and "k \<in> set xs"
    and "distinct (map oid xs)"
  shows "remove (Some k) ks =
     Inr (if remove1 k xs = [] then AList.delete n ks
          else AList.update n (Keys (remove1 k xs)) ks)"
proof -
  from indexOf_present [OF assms(3,4)] obtain i where
    "indexOf xs k = Some i" "splice1 i xs = remove1 k xs" by blast
  with assms(1,2) show ?thesis by simp
qed

lemma remove_noop:
  "remove None ks = Inr ks"
  "keysets_read ks (property_name (kid k)) = Undefined \<Longrightarrow> remove (Some k) ks = Inr ks"
  "keysets_read ks (property_name (kid k)) = Array xs \<Longrightarrow> oid k \<notin> oid ` set xs \<Longrightarrow>
     remove (Some k) ks = Inr ks"
  by (simp_all add: indexOf_absent)

lemma get_delegation_yields_no_key:
  assumes "all (cells h a) True (KeyStore ks (Some p)) = Inr []" and "\<not> arg_truthy local"
  shows "snd (get h (KeyStore ks (Some p)) (AObj a) local u) \<noteq> Inr (Some k)"
proof -
  obtain h3 r where r: "get h p (AObj a) local AUndefined = (h3, r)"
    by (cases "get h p (AObj a) local AUndefined")
  have "element0_or_null found \<noteq> Inr (Some k)" for found
    by (cases found) (simp_all add: key_element0_def)
  with assms r show ?thesis
    by (cases r) (simp_all add: or_empty_def del: all.simps)
qed

lemma list_all_update:
  "list_all P al \<Longrightarrow> P (n, v) \<Longrightarrow> list_all P (AList.update n v al)"
  by (induction al) auto

lemma list_all_delete: "list_all P al \<Longrightarrow> list_all P (AList.delete n al)"
  by (induction al) auto

lemma store_inv_empty: "store_inv []"
  by (simp add: store_inv_def)

lemma store_inv_read:
  assumes "store_inv ks"
  shows "keysets_read ks n = NotArray \<longleftrightarrow> n = ''__proto__'' \<or> n \<in> set object_prototype_functions"
proof (cases "map_of ks n")
  case None
  then show ?thesis by (simp add: keysets_read_def)
next
  case (Some b)
  then have "(n, b) \<in> set ks" by (rule map_of_SomeD)
  with assms have "n \<noteq> ''__proto__''" "is_array b = (n \<notin> set object_prototype_functions)"
    by (auto simp: store_inv_def list_all_iff)
  with Some show ?thesis by (cases b) (auto simp: keysets_read_def)
qed

lemma plain_kid_truthy: "kid (BaseKey i t members cfg) = Some n \<Longrightarrow> n \<noteq> []"
  by (cases "map_of members ''kid''") (auto simp: BaseKey_def generated_kid_def split: if_splits)


lemma add_commit_inv:
  assumes "store_inv ks" and "add_commit fresh ks x = (out, ks')"
  shows "store_inv ks'"
proof -
  obtain t jwk cfg where x: "x = (t, jwk, cfg)" by (cases x)
  define k where "k = BaseKey fresh t (members_of jwk) cfg"
  define n where "n = kid_or_empty (kid k)"
  show ?thesis
  proof (cases "keysets_read ks n")
    case (Array xs)
    with store_inv_read [OF assms(1), of n]
    have "n \<noteq> ''__proto__''" "n \<notin> set object_prototype_functions" by auto
    with assms Array x show ?thesis
      by (auto simp: add_commit_def Let_def k_def n_def store_inv_def intro!: list_all_update)
  next
    case NotArray
    show ?thesis
    proof (cases "n = ''__proto__''")
      case True
      with assms NotArray x show ?thesis
        by (auto simp: add_commit_def Let_def k_def n_def)
    next
      case False
      with store_inv_read [OF assms(1), of n] NotArray
      have "n \<in> set object_prototype_functions" by simp
      with assms NotArray x False show ?thesis
        by (auto simp: add_commit_def Let_def k_def n_def store_inv_def intro!: list_all_update)
    qed
  next
    case Undefined
    with store_inv_read [OF assms(1), of n]
    have "n \<noteq> ''__proto__''" "n \<notin> set object_prototype_functions" by auto
    with assms Undefined x show ?thesis
      by (auto simp: add_commit_def Let_def k_def n_def store_inv_def intro!: list_all_update)
  qed
qed

lemma add_inv: "store_inv ks \<Longrightarrow> add parse reg fresh ks input = (out, ks') \<Longrightarrow> store_inv ks'"
  unfolding add_def
  by (cases "add_prepare parse reg input") (auto dest: add_commit_inv)

lemma generate_inv:
  "store_inv ks \<Longrightarrow> generate parse reg fresh ks t sz props0 = (out, ks') \<Longrightarrow> store_inv ks'"
  unfolding generate_def Let_def
  by (auto split: lookup.splits outcome.splits prod.splits dest: add_inv)

lemma remove_inv: "store_inv ks \<Longrightarrow> remove jwk ks = Inr ks' \<Longrightarrow> store_inv ks'"
proof (cases jwk)
  case None
  assume "store_inv ks" "remove jwk ks = Inr ks'"
  with None show ?thesis by simp
next
  case (Some k)
  assume inv: "store_inv ks" and r: "remove jwk ks = Inr ks'"
  show ?thesis
  proof (cases "keysets_read ks (property_name (kid k))")
    case (Array xs)
    with store_inv_read [OF inv, of "property_name (kid k)"]
    have "property_name (kid k) \<noteq> ''__proto__''"
      "property_name (kid k) \<notin> set object_prototype_functions" by auto
    with inv r Some Array show ?thesis
      by (auto simp: store_inv_def split: option.splits if_splits
          intro!: list_all_update list_all_delete)
  qed (use inv r Some in auto)
qed




lemma list_all_mono': "list_all P xs \<Longrightarrow> (\<And>x. P x \<Longrightarrow> Q x) \<Longrightarrow> list_all Q xs"
  by (induction xs) auto

lemma oids_inv_bucket:
  assumes "oids_inv fresh ks"
  shows "distinct (map oid (keys_at ks n)) \<and> list_all (\<lambda>x. oid x < fresh) (keys_at ks n)"
proof (cases "map_of ks n")
  case None
  then show ?thesis by (simp add: keys_at_def)
next
  case (Some b)
  then have "(n, b) \<in> set ks" by (rule map_of_SomeD)
  with assms have "distinct (map oid (bucket_keys b))" "list_all (\<lambda>x. oid x < fresh) (bucket_keys b)"
    by (auto simp: oids_inv_def list_all_iff)
  with Some show ?thesis by (cases b) (auto simp: keys_at_def)
qed

lemma oids_inv_Suc: "oids_inv fresh ks \<Longrightarrow> oids_inv (Suc fresh) ks"
  unfolding oids_inv_def
  by (erule list_all_mono') (auto simp: list_all_iff less_Suc_eq)

lemma add_oids_inv:
  assumes "oids_inv fresh ks" and "add parse reg fresh ks input = (out, ks')"
  shows "oids_inv (Suc fresh) ks'"
proof (cases out)
  case (Resolved k)
  with add_effect [OF assms(2)] have ks': "ks' = AList.update (kid_or_empty (kid k))
        (Keys (keys_at ks (kid_or_empty (kid k)) @ [k])) ks" by simp
  have "oid k = fresh"
    using assms(2) Resolved
    by (auto simp: add_def add_commit_def Let_def BaseKey_def
        split: outcome.splits slot.splits prod.splits)
  with oids_inv_bucket [OF assms(1), of "kid_or_empty (kid k)"]
  have "distinct (map oid (keys_at ks (kid_or_empty (kid k)) @ [k]))"
    "list_all (\<lambda>x. oid x < Suc fresh) (keys_at ks (kid_or_empty (kid k)) @ [k])"
    by (auto simp: list_all_iff less_Suc_eq)
  with oids_inv_Suc [OF assms(1)] show ?thesis
    unfolding ks' oids_inv_def by (auto intro!: list_all_update)
next
  case (Rejected e)
  with add_effect [OF assms(2)] oids_inv_Suc [OF assms(1)] show ?thesis
    by (auto simp: oids_inv_def)
next
  case (Thrown e)
  with add_effect [OF assms(2)] oids_inv_Suc [OF assms(1)] show ?thesis
    by simp
qed

lemma toJSON_own_keys_only:
  "toJSON isPrivate (KeyStore ks par) = toJSON isPrivate (KeyStore ks None) \<and>
   toJSON isPrivate (KeyStore ks par) =
     (case all no_props True (KeyStore ks par) of
        Inl e \<Rightarrow> Inl e
      | Inr xs \<Rightarrow> Inr (map (key_toJSON isPrivate) xs)) \<and>
   (arrays_only ks \<longrightarrow>
      toJSON isPrivate (KeyStore ks par) =
        Inr (concat (map (\<lambda>n. map (key_toJSON isPrivate) (keys_at ks n)) (object_keys ks))))"
proof -
  have "toJSON isPrivate (KeyStore ks par) = toJSON isPrivate (KeyStore ks None)"
    by simp
  moreover have "toJSON isPrivate (KeyStore ks par) =
     (case all no_props True (KeyStore ks par) of
        Inl e \<Rightarrow> Inl e
      | Inr xs \<Rightarrow> Inr (map (key_toJSON isPrivate) xs))"
    by (simp add: collect_scan split: sum.splits option.splits)
  moreover have "arrays_only ks \<longrightarrow>
      toJSON isPrivate (KeyStore ks par) =
        Inr (concat (map (\<lambda>n. map (key_toJSON isPrivate) (keys_at ks n)) (object_keys ks)))"
    by (simp add: collect_arrays set_object_keys)
  ultimately show ?thesis
    by blast
qed

text \<open>
  An addition that is rejected at once decides \<^verbatim>\<open>Promise.all\<close>, also behind one that
  fails later.
\<close>

lemma asKeyStore_rejected_at_once:
  "asKeyStore sample_parse sample_registry 0
     (VArr [VObj [(''kty'', ''oct''), (''kid'', ''toString''), (''k'', ''c2VjcmV0'')] None,
            VObj [(''kty'', ''nope'')] None]) = Rejected UnsupportedKeyType"
  by (simp add: coerce_def parse_text_def rejected_at_once_def add_defs sample_registry_def
      oct_factory_def eval_defs)

lemma settle_all_inv:
  "store_inv ks \<Longrightarrow> settle_all fresh ks ps = Inr ks' \<Longrightarrow> store_inv ks'"
proof (induction fresh ks ps rule: settle_all.induct)
  case (2 fresh ks x ps)
  obtain out ks1 where c: "add_commit fresh ks x = (out, ks1)"
    by (cases "add_commit fresh ks x")
  with 2 show ?case
    by (cases out) (auto dest: add_commit_inv)
qed simp_all

lemma splice1_oids:
  assumes "distinct (map oid xs)" and "list_all (\<lambda>x. oid x < fresh) xs"
  shows "distinct (map oid (splice1 i xs)) \<and> list_all (\<lambda>x. oid x < fresh) (splice1 i xs)"
proof -
  have "distinct (take i (map oid xs) @ drop (Suc i) (map oid xs))"
    using assms(1) set_take_disj_set_drop_if_distinct [of "map oid xs" i "Suc i"]
    by simp
  then have "distinct (map oid (splice1 i xs))"
    by (simp add: splice1_def take_map drop_map)
  moreover have "set (splice1 i xs) \<subseteq> set xs"
    by (auto simp: splice1_def dest: in_set_takeD in_set_dropD)
  ultimately show ?thesis
    using assms(2) by (auto simp: list_all_iff)
qed

lemma remove_oids_inv:
  assumes "oids_inv fresh ks" and "remove jwk ks = Inr ks'"
  shows "oids_inv fresh ks'"
proof (cases jwk)
  case None
  with assms show ?thesis by simp
next
  case (Some k)
  show ?thesis
  proof (cases "keysets_read ks (property_name (kid k))")
    case (Array xs)
    then have "xs = keys_at ks (property_name (kid k))"
      by (auto simp: keysets_read_def keys_at_def split: if_splits option.splits bucket.splits)
    with oids_inv_bucket [OF assms(1), of "property_name (kid k)"]
    have "distinct (map oid xs)" "list_all (\<lambda>x. oid x < fresh) xs" by simp_all
    from splice1_oids [OF this] assms Some Array show ?thesis
      by (auto simp: oids_inv_def split: option.splits if_splits
          intro!: list_all_update list_all_delete)
  qed (use assms Some in auto)
qed

section \<open>The claims\<close>

text \<open>
  C1.  The claim: when \<^verbatim>\<open>get\<close> finds no candidate among the store's own keys, a parent
  exists and \<^verbatim>\<open>local\<close> is falsy, the call returns what the parent's \<^verbatim>\<open>get\<close> returns (the
  Key found, or \<^verbatim>\<open>null\<close>).  The code assigns the parent's result to \<^verbatim>\<open>candidates\<close> and then
  returns \<^verbatim>\<open>candidates[0] || null\<close>: the parent below finds \<open>rsa_key\<close>, its child
  returns \<^verbatim>\<open>null\<close>; and where the parent finds nothing, the child raises a TypeError.
\<close>

theorem get_delegation_discards_parent_result:
  "snd (get sample_heap (KeyStore [(''a'', Keys [rsa_key])] None)
          (AStr ''a'') AUndefined AUndefined) = Inr (Some rsa_key) \<and>
   snd (get sample_heap (KeyStore [] (Some (KeyStore [(''a'', Keys [rsa_key])] None)))
          (AStr ''a'') AUndefined AUndefined) = Inr None \<and>
   snd (get sample_heap (KeyStore [] (Some (KeyStore [] None)))
          (AStr ''a'') AUndefined AUndefined) = Inl TypeError"
  by (simp add: eval_defs sample_heap_def rsa_key_def)

text \<open>
  C2, as amended.  For a filter whose \<^verbatim>\<open>alg\<close> is \<^verbatim>\<open>"dir"\<close> the rule of \<^verbatim>\<open>all\<close> does not
  compare the key's own \<^verbatim>\<open>alg\<close> member: it accepts the key exactly when the clauses on
  \<^verbatim>\<open>kty\<close> and \<^verbatim>\<open>use\<close> pass and the key reports that it supports \<^verbatim>\<open>"dir"\<close>.
\<close>

theorem matches_dir:
  "p_alg f = Some ''dir'' \<Longrightarrow>
   matches f k =
     ((\<not> truthy (p_kty f) \<or> \<not> truthy (kty k) \<or> p_kty f = kty k) \<and>
      (\<not> truthy (p_use f) \<or> \<not> truthy (use k) \<or> p_use f = use k) \<and>
      supports k ''dir'')"
  by (auto simp: matches_def)

theorem matches_dir_witness:
  "p_alg (no_props\<lparr>p_alg := Some ''dir''\<rparr>) = Some ''dir'' \<and>
   matches (no_props\<lparr>p_alg := Some ''dir''\<rparr>) oct_key \<and>
   alg oct_key = Some ''A128GCM''"
  using matches_dir [of "no_props\<lparr>p_alg := Some ''dir''\<rparr>" oct_key]
  by (simp add: no_props_def oct_key_def supports_def)

text \<open>
  C2 as stated fails: a key that does not support \<^verbatim>\<open>"dir"\<close> is rejected by the filter
  \<^verbatim>\<open>{alg: "dir"}\<close>, which has no other clause, and \<^verbatim>\<open>all\<close> does not return it.
\<close>

theorem matches_dir_counterexample:
  "\<not> matches (no_props\<lparr>p_alg := Some ''dir''\<rparr>) rsa_key \<and>
   all (no_props\<lparr>p_alg := Some ''dir''\<rparr>) True (KeyStore [(''a'', Keys [rsa_key])] None) =
     Inr []"
  by (simp add: eval_defs rsa_key_def)

text \<open>
  C3, as amended.  \<^verbatim>\<open>add\<close> replaces a Key \<open>k\<close> by its complete JSON representation,
  private members included (\<^verbatim>\<open>toJSON(true)\<close>), and constructs a new Key from that
  representation: when the addition succeeds, the Key it yields and stores at the end
  of its bucket has a new identity, different from that of \<open>k\<close>.
\<close>

theorem add_key_duplicates:
  assumes "oid k < fresh"
  shows "normalize_input parse (VKey k) = Inr (VObj (key_toJSON True k) None) \<and>
    (\<forall>k' ks'. add parse reg fresh ks (VKey k) = (Resolved k', ks') \<longrightarrow>
       oid k' = fresh \<and> oid k' \<noteq> oid k \<and>
       (\<exists>keytype cfg.
          registry_get reg (map_of (key_toJSON True k) ''kty'') = Found keytype \<and>
          f_prepare keytype (VObj (key_toJSON True k) None) = Resolved cfg \<and>
          k' = BaseKey fresh (map_of (key_toJSON True k) ''kty'') (key_toJSON True k) cfg) \<and>
       keys_at ks' (kid_or_empty (kid k')) = keys_at ks (kid_or_empty (kid k')) @ [k'])"
  using assms
  by (auto simp: add_def add_prepare_def add_commit_def Let_def keysets_read_def keys_at_def
        BaseKey_def update_conv'
      split: lookup.splits outcome.splits slot.splits option.splits bucket.splits if_splits)

theorem add_key_duplicates_witness:
  "oid oct_key < 5 \<and>
   normalize_input sample_parse (VKey oct_key) = Inr (VObj (key_toJSON True oct_key) None) \<and>
   add sample_parse sample_registry 5 [] (VKey oct_key) =
     (Resolved (oct_key\<lparr>oid := 5\<rparr>), [(''b'', Keys [oct_key\<lparr>oid := 5\<rparr>])]) \<and>
   oid (oct_key\<lparr>oid := 5\<rparr>) \<noteq> oid oct_key"
  using add_key_duplicates [of oct_key 5 sample_parse sample_registry "[]"]
  by (simp add: key_toJSON_def oct_key_def add_defs sample_registry_def oct_factory_def
        eval_defs)

text \<open>
  C3 as stated fails: the representation that \<^verbatim>\<open>add\<close> takes from a Key is not the public
  one.  The private member \<^verbatim>\<open>k\<close> of \<open>oct_key\<close> is in it and in the Key that is stored.
\<close>

theorem add_key_public_counterexample:
  "normalize_input sample_parse (VKey oct_key) \<noteq> Inr (VObj (key_toJSON False oct_key) None) \<and>
   key_toJSON True oct_key = key_toJSON False oct_key @ [(''k'', ''c2VjcmV0'')] \<and>
   add sample_parse sample_registry 5 [] (VKey oct_key) =
     (Resolved (oct_key\<lparr>oid := 5\<rparr>), [(''b'', Keys [oct_key\<lparr>oid := 5\<rparr>])]) \<and>
   priv (oct_key\<lparr>oid := 5\<rparr>) = [(''k'', ''c2VjcmV0'')]"
  by (simp add: key_toJSON_def oct_key_def add_defs sample_registry_def oct_factory_def
        eval_defs)

text \<open>
  C4.  The claim: a text that \<^verbatim>\<open>JSON.parse\<close> cannot parse makes \<^verbatim>\<open>asKeyStore\<close> return a
  rejected promise.  The code calls \<^verbatim>\<open>JSON.parse\<close> outside of any promise (line 399), so
  the SyntaxError is thrown to the caller.
\<close>

theorem asKeyStore_unparseable_throws:
  "parse t = None \<Longrightarrow> asKeyStore parse reg fresh (VText t) = Thrown SyntaxError"
  by (simp add: coerce_def parse_text_def)

theorem asKeyStore_unparseable_throws_witness:
  "sample_parse ''not json'' = None \<and>
   asKeyStore sample_parse sample_registry 0 (VText ''not json'') = Thrown SyntaxError"
  using asKeyStore_unparseable_throws [of sample_parse "''not json''" sample_registry 0]
  by (simp add: sample_parse_def)



text \<open>
  C6.  The claim: when \<^verbatim>\<open>add\<close> or \<^verbatim>\<open>generate\<close> fails, \<^verbatim>\<open>keysets\<close> is unchanged.  For a key
  whose \<^verbatim>\<open>kid\<close> names a function of \<^verbatim>\<open>Object.prototype\<close>, line 154 reads that function
  through the prototype chain, writes it into \<^verbatim>\<open>keysets\<close> as an own property, and line
  155 fails on its missing \<^verbatim>\<open>push\<close>: the promise rejects and \<^verbatim>\<open>keysets\<close> has a new entry,
  on which every later \<^verbatim>\<open>all\<close> fails.  (In every other case of failure \<^verbatim>\<open>keysets\<close> is
  unchanged, and a success appends exactly one key: \<open>add_effect\<close>, \<open>generate_effect\<close>.)
\<close>

theorem add_failure_changes_keysets:
  "add sample_parse sample_registry 0 []
      (VObj [(''kty'', ''oct''), (''kid'', ''toString''), (''k'', ''c2VjcmV0'')] None) =
     (Rejected TypeError, [(''toString'', Builtin)]) \<and>
   generate sample_parse sample_registry 0 [] ''oct'' (Bits 256)
      (Some [(''kid'', ''toString'')]) =
     (Rejected TypeError, [(''toString'', Builtin)]) \<and>
   all no_props True (KeyStore [(''toString'', Builtin)] None) = Inl TypeError"
  by (simp add: add_defs sample_registry_def oct_factory_def generate_def merge_def eval_defs)

text \<open>
  C7.  \<^verbatim>\<open>register(factory)\<close> throws (the error "invalid Key factory") exactly when the
  factory is absent or its \<^verbatim>\<open>kty\<close> is not a non-empty string.  Otherwise it returns the
  registry, in which \<^verbatim>\<open>get\<close> of that tag yields the factory; and a further registration
  under the same tag replaces it, so that \<^verbatim>\<open>get\<close> yields the later factory.
\<close>

theorem register_spec:
  "(register fo r = Inl InvalidKeyFactory \<longleftrightarrow>
      fo = None \<or> (\<exists>f. fo = Some f \<and> (f_kty f = None \<or> f_kty f = Some []))) \<and>
   (\<forall>e. register fo r = Inl e \<longrightarrow> e = InvalidKeyFactory) \<and>
   (\<forall>f t. fo = Some f \<and> f_kty f = Some t \<and> t \<noteq> [] \<longrightarrow>
      (\<exists>r'. register fo r = Inr r' \<and> registry_get r' (Some t) = Found f \<and>
         (\<forall>g. f_kty g = Some t \<longrightarrow>
            (\<exists>r''. register (Some g) r' = Inr r'' \<and> registry_get r'' (Some t) = Found g))))"
proof (cases fo)
  case None
  then show ?thesis
    by simp
next
  case (Some f)
  show ?thesis
  proof (cases "f_kty f")
    case None
    with Some show ?thesis
      by simp
  next
    case (Some t)
    note t = this
    show ?thesis
    proof (cases "t = []")
      case True
      with t \<open>fo = Some f\<close> show ?thesis
        by simp
    next
      case False
      have stored: "\<And>g r0. f_kty g = Some t \<Longrightarrow>
         \<exists>r'. register (Some g) r0 = Inr r' \<and> registry_get r' (Some t) = Found g"
        using False by (simp add: registry_get_def update_conv')
      from stored [OF t, of r] obtain r' where
        r': "register (Some f) r = Inr r'" "registry_get r' (Some t) = Found f"
        by blast
      have "\<forall>g. f_kty g = Some t \<longrightarrow>
            (\<exists>r''. register (Some g) r' = Inr r'' \<and> registry_get r'' (Some t) = Found g)"
        using stored by blast
      with r' t False \<open>fo = Some f\<close> show ?thesis
        by auto
    qed
  qed
qed

theorem register_spec_witness:
  "f_kty oct_factory = Some ''oct'' \<and>
   (\<exists>r'. register (Some oct_factory) empty_registry = Inr r' \<and>
      registry_get r' (Some ''oct'') = Found oct_factory \<and>
      (\<exists>r''. register (Some failing_factory) r' = Inr r'' \<and>
         registry_get r'' (Some ''oct'') = Found failing_factory))"
  using register_spec [of "Some oct_factory" empty_registry]
  by (simp add: oct_factory_def failing_factory_def)

text \<open>
  C8.  For a store with a parent, \<^verbatim>\<open>all(f)\<close> is the store's own matches \<^verbatim>\<open>all(f, true)\<close>
  followed by the parent's \<^verbatim>\<open>all(f)\<close>, itself not local (and it fails where one of the
  two fails).  Hence the own matches are among the result, and what else is in the
  result is among the parent's.
\<close>

theorem all_appends_parent:
  "all f False (KeyStore ks (Some p)) =
     (case all f True (KeyStore ks (Some p)) of
        Inl e \<Rightarrow> Inl e
      | Inr own \<Rightarrow>
          (case all f False p of
             Inl e \<Rightarrow> Inl e
           | Inr inherited \<Rightarrow> Inr (own @ inherited))) \<and>
   (\<forall>own inherited.
      all f True (KeyStore ks (Some p)) = Inr own \<and> all f False p = Inr inherited \<longrightarrow>
      all f False (KeyStore ks (Some p)) = Inr (own @ inherited) \<and>
      set own \<subseteq> set (own @ inherited) \<and>
      set (own @ inherited) - set own \<subseteq> set inherited)"
  by (auto split: sum.splits)

theorem all_appends_parent_witness:
  "all no_props True (KeyStore [(''b'', Keys [oct_key])] (Some (KeyStore [(''a'', Keys [rsa_key])] None))) = Inr [oct_key] \<and>
   all no_props False (KeyStore [(''a'', Keys [rsa_key])] None) = Inr [rsa_key] \<and>
   all no_props False (KeyStore [(''b'', Keys [oct_key])] (Some (KeyStore [(''a'', Keys [rsa_key])] None))) = Inr [oct_key, rsa_key]"
  using all_appends_parent [of no_props "[(''b'', Keys [oct_key])]" "KeyStore [(''a'', Keys [rsa_key])] None"]
  by (simp add: eval_defs)

text \<open>
  C9.  The claim: for every store \<^verbatim>\<open>toJSON\<close> returns the JSON representations of the
  store's own keys.  In the store that the failed \<^verbatim>\<open>add\<close> of C6 leaves behind, the slot
  \<^verbatim>\<open>toString\<close> holds a function, and line 326 fails on its missing \<^verbatim>\<open>map\<close>: \<^verbatim>\<open>toJSON\<close>
  raises a TypeError.  (That \<^verbatim>\<open>toJSON\<close> never looks at the parent, and what it returns
  when every slot holds an array: \<open>toJSON_own_keys_only\<close>.)
\<close>

theorem toJSON_throws_after_failed_add:
  "add sample_parse sample_registry 0 []
      (VObj [(''kty'', ''oct''), (''kid'', ''toString''), (''k'', ''c2VjcmV0'')] None) =
     (Rejected TypeError, [(''toString'', Builtin)]) \<and>
   toJSON False (KeyStore [(''toString'', Builtin)] None) = Inl TypeError \<and>
   toJSON True (KeyStore [(''toString'', Builtin)] None) = Inl TypeError"
  by (simp add: add_defs sample_registry_def oct_factory_def eval_defs)

text \<open>
  C10.  \<^verbatim>\<open>get(kid, props)\<close> with a non-empty string \<^verbatim>\<open>kid\<close> and a filter object \<^verbatim>\<open>props\<close>
  leaves the heap changed in exactly one place: the member \<^verbatim>\<open>kid\<close> of the caller's
  object is now \<^verbatim>\<open>kid\<close>.
\<close>

theorem get_assigns_kid_in_place:
  "s \<noteq> [] \<Longrightarrow>
   fst (get h st (AStr s) (AObj a) local) =
     h\<lparr>cells := (cells h)(a := (cells h a)\<lparr>p_kid := Some s\<rparr>)\<rparr>"
proof (cases st)
  case (KeyStore ks par)
  assume s: "s \<noteq> []"
  show ?thesis
  proof (cases par)
    case None
    with s KeyStore show ?thesis
      by (simp add: or_empty_def split: sum.splits)
  next
    case (Some p)
    with s KeyStore show ?thesis
      by (auto simp add: or_empty_def split: sum.splits prod.splits dest: get_object_keeps_heapD)
  qed
qed

theorem get_assigns_kid_in_place_witness:
  "''a'' \<noteq> [] \<and> p_kid (cells sample_heap 0) = None \<and>
   p_kid (cells (fst (get sample_heap (KeyStore [(''a'', Keys [rsa_key])] None)
      (AStr ''a'') (AObj 0) AUndefined)) 0) = Some ''a''"
  using get_assigns_kid_in_place [of "''a''" sample_heap "KeyStore [(''a'', Keys [rsa_key])] None" 0 AUndefined]
  by (simp add: sample_heap_def no_props_def)

end
